theory Spec2Isabelle
  imports Complex_Main
begin

section \<open>Values, exceptions and the Python operations the backend relies on\<close>

text \<open>
  The analytics backend (router, find/highlight, analysis and fallback nodes, the graph
  that wires them and the FastAPI route) is Python; the route-visualization utilities are
  TypeScript. A string is well-formed Unicode text, kept as its UTF-8 bytes, so the
  Korean literals of the source appear as their bytes.

  A decoded JSON document is a \<open>json\<close> value. A JSON integer decodes to a Python int
  (\<open>JInt\<close>), any other number to a float (\<open>JFloat\<close>, which may be an infinity or NaN);
  \<open>JObj\<close> stands for a Python dict (an association list whose first binding of a key is
  the dict's entry).
\<close>

datatype py_float = Finite real | PosInfinity | NegInfinity | NotANumber

datatype json =
    JNull
  | JBool bool
  | JInt int
  | JFloat py_float
  | JStr string
  | JArr "json list"
  | JObj "(string \<times> json) list"

text \<open>
  Exceptions are values. \<open>External\<close> is whatever a collaborator raised (the hosted
  model's client, \<open>open\<close>, \<open>json.load\<close> on a data file) with its message;
  \<open>HTTPException status e\<close> is FastAPI's exception whose detail is \<open>str(e)\<close>.
\<close>

datatype py_exception =
    External string
  | JSONDecodeError
  | KeyError string
  | TypeError
  | AttributeError
  | IndexError
  | ValueError
  | OverflowError
  | RecursionError
  | ValidationError
  | HTTPException nat py_exception

definition bind_exc :: "py_exception + 'a \<Rightarrow> ('a \<Rightarrow> py_exception + 'b) \<Rightarrow> py_exception + 'b" where
  "bind_exc m f = (case m of Inl e \<Rightarrow> Inl e | Inr x \<Rightarrow> f x)"

fun mapM_exc :: "('a \<Rightarrow> py_exception + 'b) \<Rightarrow> 'a list \<Rightarrow> py_exception + 'b list" where
  "mapM_exc f [] = Inr []"
| "mapM_exc f (x # xs) =
     bind_exc (f x) (\<lambda>y. bind_exc (mapM_exc f xs) (\<lambda>ys. Inr (y # ys)))"

text \<open>
  Stripping white space from both ends of a string, for a given list of white space
  characters (each as its UTF-8 bytes): leading ones are dropped one character at a time,
  trailing ones likewise on the reversed string.
\<close>

function strip_left :: "string list \<Rightarrow> string \<Rightarrow> string" where
  "strip_left ws s =
     (case find (\<lambda>w. w \<noteq> [] \<and> take (length w) s = w) ws of
        None \<Rightarrow> s
      | Some w \<Rightarrow> strip_left ws (drop (length w) s))"
  by pat_completeness auto
termination
proof (relation "measure (\<lambda>(ws, s). length s)")
  show "wf (measure (\<lambda>(ws, s). length s))" by simp
next
  fix ws :: "string list" and s w :: string
  assume found: "find (\<lambda>w. w \<noteq> [] \<and> take (length w) s = w) ws = Some w"
  from found have nonempty: "w \<noteq> []" and taken: "take (length w) s = w"
    by (auto simp: find_Some_iff)
  from nonempty have pos: "0 < length w" by simp
  have "min (length w) (length s) = length w"
    using arg_cong [OF taken, of length] by simp
  then have le: "length w \<le> length s" by linarith
  from pos le have "length s - length w < length s" by linarith
  then show "((ws, drop (length w) s), (ws, s)) \<in> measure (\<lambda>(ws, s). length s)"
    by simp
qed

declare strip_left.simps [simp del]

definition strip_both :: "string list \<Rightarrow> string \<Rightarrow> string" where
  "strip_both ws s = rev (strip_left (map rev ws) (rev (strip_left ws s)))"

text \<open>
  The characters \<open>str.strip()\<close> removes (those for which \<open>str.isspace\<close> holds): U+0009 to
  U+000D, U+001C to U+001F, U+0020, U+0085, U+00A0, U+1680, U+2000 to U+200A, U+2028,
  U+2029, U+202F, U+205F and U+3000.
\<close>

definition py_whitespace :: "string list" where
  "py_whitespace =
     [[CHR 0x09], [CHR 0x0A], [CHR 0x0B], [CHR 0x0C], [CHR 0x0D],
      [CHR 0x1C], [CHR 0x1D], [CHR 0x1E], [CHR 0x1F], [CHR 0x20],
      [CHR 0xC2, CHR 0x85], [CHR 0xC2, CHR 0xA0], [CHR 0xE1, CHR 0x9A, CHR 0x80],
      [CHR 0xE2, CHR 0x80, CHR 0x80], [CHR 0xE2, CHR 0x80, CHR 0x81],
      [CHR 0xE2, CHR 0x80, CHR 0x82], [CHR 0xE2, CHR 0x80, CHR 0x83],
      [CHR 0xE2, CHR 0x80, CHR 0x84], [CHR 0xE2, CHR 0x80, CHR 0x85],
      [CHR 0xE2, CHR 0x80, CHR 0x86], [CHR 0xE2, CHR 0x80, CHR 0x87],
      [CHR 0xE2, CHR 0x80, CHR 0x88], [CHR 0xE2, CHR 0x80, CHR 0x89],
      [CHR 0xE2, CHR 0x80, CHR 0x8A], [CHR 0xE2, CHR 0x80, CHR 0xA8],
      [CHR 0xE2, CHR 0x80, CHR 0xA9], [CHR 0xE2, CHR 0x80, CHR 0xAF],
      [CHR 0xE2, CHR 0x81, CHR 0x9F], [CHR 0xE3, CHR 0x80, CHR 0x80]]"

definition py_strip :: "string \<Rightarrow> string" where
  "py_strip s = strip_both py_whitespace s"

text \<open>\<open>d.get(key, default)\<close>: only a dict has \<open>get\<close>.\<close>

fun py_get :: "json \<Rightarrow> string \<Rightarrow> json \<Rightarrow> py_exception + json" where
  "py_get (JObj kvs) key dflt = Inr (case map_of kvs key of Some v \<Rightarrow> v | None \<Rightarrow> dflt)"
| "py_get _ key dflt = Inl AttributeError"

text \<open>\<open>d[key]\<close> with a string key: KeyError on a dict without it, TypeError on anything else.\<close>

fun py_getitem :: "json \<Rightarrow> string \<Rightarrow> py_exception + json" where
  "py_getitem (JObj kvs) key = (case map_of kvs key of Some v \<Rightarrow> Inr v | None \<Rightarrow> Inl (KeyError key))"
| "py_getitem _ key = Inl TypeError"

text \<open>
  \<open>for x in v\<close>: a list yields its elements, a dict its keys, a string its characters;
  nothing else is iterable.
\<close>

fun py_iter :: "json \<Rightarrow> py_exception + json list" where
  "py_iter (JArr xs) = Inr xs"
| "py_iter (JObj kvs) = Inr (map (\<lambda>kv. JStr (fst kv)) kvs)"
| "py_iter (JStr s) = Inr (map (\<lambda>c. JStr [c]) s)"
| "py_iter _ = Inl TypeError"

text \<open>
  The format specification \<open>:.2f\<close> in an f-string. A float formats. An int is converted
  to a float first, rounding to the nearest double, which raises OverflowError from
  \<open>2^1024 - 2^970\<close> on in magnitude (the midpoint between the largest double and
  \<open>2^1024\<close>). A boolean formats as the int it is. A string has no format code \<open>f\<close>
  (ValueError); every other value rejects the specification (TypeError). The printed text
  is not kept.
\<close>

fun format_2f :: "json \<Rightarrow> py_exception + unit" where
  "format_2f (JFloat x) = Inr ()"
| "format_2f (JInt i) = (if \<bar>i\<bar> \<ge> 2 ^ 1024 - 2 ^ 970 then Inl OverflowError else Inr ())"
| "format_2f (JBool b) = Inr ()"
| "format_2f (JStr s) = Inl ValueError"
| "format_2f _ = Inl TypeError"

text \<open>A dict key must be hashable: lists and dicts are not.\<close>

fun py_hashable :: "json \<Rightarrow> bool" where
  "py_hashable (JArr xs) = False"
| "py_hashable (JObj kvs) = False"
| "py_hashable _ = True"

section \<open>The collaborators of a request\<close>

text \<open>
  The hosted completion service is a black box: a function from the prompt a node builds
  to either an exception or the text of the response. A prompt is kept as the values the
  node interpolates into its template.
\<close>

record edge_info =
  e_id :: json
  e_source :: json
  e_target :: json
  e_label :: json

record node_info =
  n_id :: json
  n_type :: json
  n_label :: json

datatype prompt =
    IntentPrompt string
  | EdgePrompt string "edge_info list"
  | ChartTypePrompt string
  | AnalyticPrompt string string string string

datatype reply = Raised py_exception | Content string

text \<open>
  \<open>json_loads\<close> and \<open>json_dumps\<close> are the standard library's decoder and encoder. The
  decoder raises JSONDecodeError on text that is not JSON, and may raise other exceptions
  (ValueError on an integer literal beyond the interpreter's digit limit, RecursionError on
  deep nesting). The three files are the outcome of opening and decoding each data file.
\<close>

record env =
  llm :: "prompt \<Rightarrow> reply"
  json_loads :: "string \<Rightarrow> py_exception + json"
  json_dumps :: "json \<Rightarrow> string"
  graph_file :: "py_exception + json"
  transport_file :: "py_exception + json"
  commute_file :: "py_exception + json"

text \<open>
  A computation that may call the hosted model: the prompts it sent, in order, and its
  result or the exception it raised.
\<close>

type_synonym 'a io = "prompt list \<times> (py_exception + 'a)"

definition lift_io :: "py_exception + 'a \<Rightarrow> 'a io" where
  "lift_io r = ([], r)"

definition bind_io :: "'a io \<Rightarrow> ('a \<Rightarrow> 'b io) \<Rightarrow> 'b io" where
  "bind_io m f =
     (case m of
        (sent, Inl e) \<Rightarrow> (sent, Inl e)
      | (sent, Inr x) \<Rightarrow> (case f x of (sent', r) \<Rightarrow> (sent @ sent', r)))"

definition llm_invoke :: "env \<Rightarrow> prompt \<Rightarrow> string io" where
  "llm_invoke ev p = ([p], case llm ev p of Raised e \<Rightarrow> Inl e | Content c \<Rightarrow> Inr c)"

section \<open>State of the analytics graph\<close>

text \<open>
  What \<open>get_graph_data\<close> stores: the nodes and edges it read with their counts (the
  summary's constant description is left out), or \<open>{"error": str(e)}\<close>, kept as the
  exception itself.
\<close>

record summary =
  total_nodes :: nat
  total_edges :: nat

datatype graph_data =
    Graph "node_info list" "edge_info list" summary
  | GraphError py_exception

text \<open>The response model of the route; its fields are read as \<open>AnalyticsResponse.intent_type\<close> etc.\<close>

record AnalyticsResponse =
  intent_type :: string
  highlight_edge :: "(string \<times> json) list option"
  chart_data :: "(string \<times> json) list option"
  analysis_result :: "string option"
  chart_type :: "string option"

text \<open>
  \<open>AnalyticsState\<close>: a key that has not been written is \<open>None\<close>; \<open>messages\<close> holds the
  content of each message and always exists (its reducer appends).
\<close>

record AnalyticsState =
  messages :: "string list"
  intent_type :: "json option"
  graph_data :: "graph_data option"
  highlight_edge :: "json option"
  transport_data :: "string option"
  commute_allowance_data :: "string option"
  chart_type :: "string option"
  chart_data :: "json option"
  analysis_result :: "json option"

section \<open>Router nodes\<close>

definition intent_analyzer :: "env \<Rightarrow> AnalyticsState \<Rightarrow> AnalyticsState io" where
  "intent_analyzer ev st =
     (case messages st of
        [] \<Rightarrow> lift_io (Inl IndexError)
      | _ # _ \<Rightarrow>
          bind_io (llm_invoke ev (IntentPrompt (last (messages st)))) (\<lambda>content.
            lift_io
              (case json_loads ev (py_strip content) of
                 Inl e \<Rightarrow>
                   if e = JSONDecodeError
                   then Inr (st\<lparr>intent_type := Some (JStr ''fallback'')\<rparr>)
                   else Inl e
               | Inr result \<Rightarrow>
                   bind_exc (py_get result ''intent'' (JStr ''fallback'')) (\<lambda>intent.
                   bind_exc (py_get result ''confidence'' (JFloat (Finite 0))) (\<lambda>confidence.
                   bind_exc (py_get result ''reason'' (JStr [])) (\<lambda>reason.
                   bind_exc (format_2f confidence) (\<lambda>_.
                     Inr (st\<lparr>intent_type := Some intent\<rparr>))))))))"

definition route_map :: "(string \<times> string) list" where
  "route_map =
     [(''find_highlight'', ''get_graph_data''),
      (''analysis'', ''get_bus_data''),
      (''fallback'', ''fallback_response'')]"

text \<open>\<open>route_map.get(intent, "fallback_response")\<close> hashes the key first.\<close>

definition conditional_router :: "AnalyticsState \<Rightarrow> py_exception + string" where
  "conditional_router st =
     (let intent = (case intent_type st of None \<Rightarrow> JStr ''fallback'' | Some v \<Rightarrow> v) in
      if \<not> py_hashable intent then Inl TypeError
      else Inr (case intent of
                  JStr s \<Rightarrow> (case map_of route_map s of Some n \<Rightarrow> n | None \<Rightarrow> ''fallback_response'')
                | _ \<Rightarrow> ''fallback_response''))"

section \<open>Find/highlight path\<close>

definition node_of :: "json \<Rightarrow> py_exception + node_info" where
  "node_of node =
     bind_exc (py_getitem node ''id'') (\<lambda>i.
     bind_exc (py_getitem node ''type'') (\<lambda>t.
     bind_exc (py_get node ''data'' (JObj [])) (\<lambda>d.
     bind_exc (py_get d ''label'' (JStr [])) (\<lambda>l.
       Inr \<lparr>n_id = i, n_type = t, n_label = l\<rparr>))))"

definition edge_of :: "json \<Rightarrow> py_exception + edge_info" where
  "edge_of edge =
     bind_exc (py_getitem edge ''id'') (\<lambda>i.
     bind_exc (py_getitem edge ''source'') (\<lambda>s.
     bind_exc (py_getitem edge ''target'') (\<lambda>t.
     bind_exc (py_get edge ''label'' (JStr [])) (\<lambda>l.
       Inr \<lparr>e_id = i, e_source = s, e_target = t, e_label = l\<rparr>))))"

text \<open>The body of the \<open>try\<close> block of \<open>get_graph_data\<close>, from the decoded file on.\<close>

definition load_graph :: "json \<Rightarrow> py_exception + graph_data" where
  "load_graph raw_data =
     bind_exc (py_get raw_data ''nodes'' (JArr [])) (\<lambda>ns.
     bind_exc (py_iter ns) (\<lambda>ns.
     bind_exc (mapM_exc node_of ns) (\<lambda>nodes.
     bind_exc (py_get raw_data ''edges'' (JArr [])) (\<lambda>es.
     bind_exc (py_iter es) (\<lambda>es.
     bind_exc (mapM_exc edge_of es) (\<lambda>edges.
       Inr (Graph nodes edges
              \<lparr>total_nodes = length nodes, total_edges = length edges\<rparr>)))))))"

text \<open>\<open>except Exception as e: return {"graph_data": {"error": str(e)}}\<close>.\<close>

definition get_graph_data :: "env \<Rightarrow> AnalyticsState \<Rightarrow> AnalyticsState io" where
  "get_graph_data ev st =
     lift_io (Inr (st\<lparr>graph_data :=
        Some (case bind_exc (graph_file ev) load_graph of
                Inl e \<Rightarrow> GraphError e
              | Inr g \<Rightarrow> g)\<rparr>))"

text \<open>\<open>state.get("graph_data", {}).get("edges", [])\<close>.\<close>

definition state_edges :: "AnalyticsState \<Rightarrow> edge_info list" where
  "state_edges st =
     (case graph_data st of
        Some (Graph nodes edges s) \<Rightarrow> edges
      | _ \<Rightarrow> [])"

definition select_edge :: "env \<Rightarrow> AnalyticsState \<Rightarrow> AnalyticsState io" where
  "select_edge ev st =
     (case messages st of
        [] \<Rightarrow> lift_io (Inl IndexError)
      | _ # _ \<Rightarrow>
          bind_io (llm_invoke ev (EdgePrompt (last (messages st)) (state_edges st))) (\<lambda>content.
            lift_io
              (case json_loads ev content of
                 Inl e \<Rightarrow> Inl e
               | Inr result \<Rightarrow>
                   bind_exc (py_getitem result ''highlight'') (\<lambda>highlight.
                   bind_exc (py_getitem result ''reason'') (\<lambda>reason.
                     Inr (st\<lparr>highlight_edge := Some highlight,
                              analysis_result := Some reason,
                              messages := messages st @ [content]\<rparr>))))))"

section \<open>Analysis path\<close>

text \<open>\<open>except Exception\<close>: both fields become \<open>"[]"\<close>.\<close>

definition get_bus_data :: "env \<Rightarrow> AnalyticsState \<Rightarrow> AnalyticsState io" where
  "get_bus_data ev st =
     lift_io (Inr
       (case bind_exc (transport_file ev) (\<lambda>t. bind_exc (commute_file ev) (\<lambda>c. Inr (t, c))) of
          Inl e \<Rightarrow> st\<lparr>transport_data := Some ''[]'', commute_allowance_data := Some ''[]''\<rparr>
        | Inr (t, c) \<Rightarrow>
            st\<lparr>transport_data := Some (json_dumps ev t),
                commute_allowance_data := Some (json_dumps ev c)\<rparr>))"

definition chart_type_selector :: "env \<Rightarrow> AnalyticsState \<Rightarrow> AnalyticsState io" where
  "chart_type_selector ev st =
     (case messages st of
        [] \<Rightarrow> lift_io (Inl IndexError)
      | _ # _ \<Rightarrow>
          bind_io (llm_invoke ev (ChartTypePrompt (last (messages st)))) (\<lambda>content.
            lift_io (Inr (st\<lparr>chart_type := Some (py_strip content),
                              messages := messages st @ [content]\<rparr>))))"

text \<open>The keys of \<open>output_formats\<close>.\<close>

definition output_formats :: "string list" where
  "output_formats = [''line_chart'', ''bar_chart'', ''table'', ''text_summary'']"

definition generate_analytic :: "env \<Rightarrow> AnalyticsState \<Rightarrow> AnalyticsState io" where
  "generate_analytic ev st =
     (case messages st of
        [] \<Rightarrow> lift_io (Inl IndexError)
      | user_question # _ \<Rightarrow>
          (let ct = (case chart_type st of None \<Rightarrow> ''text_summary'' | Some c \<Rightarrow> c);
               td = (case transport_data st of None \<Rightarrow> [] | Some t \<Rightarrow> t);
               cd = (case commute_allowance_data st of None \<Rightarrow> [] | Some c \<Rightarrow> c)
           in if ct \<notin> set output_formats then lift_io (Inl (KeyError ct))
              else
                bind_io (llm_invoke ev (AnalyticPrompt td cd user_question ct)) (\<lambda>content.
                  lift_io
                    (case json_loads ev content of
                       Inl e \<Rightarrow> Inl e
                     | Inr result \<Rightarrow>
                         bind_exc (py_getitem result ''chart_data'') (\<lambda>data.
                         bind_exc (py_getitem result ''reason'') (\<lambda>reason.
                           Inr (st\<lparr>chart_data := Some data,
                                    analysis_result := Some reason,
                                    messages := messages st @ [content]\<rparr>)))))))"

section \<open>Fallback node\<close>

text \<open>The triple-quoted literal of \<open>fallback_response\<close>, byte for byte.\<close>

definition fallback_literal :: string where
  "fallback_literal =
     [CHR 0x0A] @
     ([CHR 0xEC, CHR 0xA3, CHR 0x84, CHR 0xEC, CHR 0x86, CHR 0xA1, CHR 0xED, CHR 0x95, CHR 0xA9, CHR 0xEB, CHR 0x8B, CHR 0x88, CHR 0xEB, CHR 0x8B, CHR 0xA4] @ ''. '' @ [CHR 0xEC, CHR 0xA7, CHR 0x88, CHR 0xEB, CHR 0xAC, CHR 0xB8, CHR 0xEC, CHR 0x9D, CHR 0x84] @ '' '' @ [CHR 0xEC, CHR 0x9D, CHR 0xB4, CHR 0xED, CHR 0x95, CHR 0xB4, CHR 0xED, CHR 0x95, CHR 0x98, CHR 0xEC, CHR 0xA7, CHR 0x80] @ '' '' @ [CHR 0xEB, CHR 0xAA, CHR 0xBB, CHR 0xED, CHR 0x96, CHR 0x88, CHR 0xEC, CHR 0x8A, CHR 0xB5, CHR 0xEB, CHR 0x8B, CHR 0x88, CHR 0xEB, CHR 0x8B, CHR 0xA4] @ ''.'' @ [CHR 0x0A]) @
     [CHR 0x0A] @
     ([CHR 0xEB, CHR 0x8B, CHR 0xA4, CHR 0xEC, CHR 0x9D, CHR 0x8C, CHR 0xEA, CHR 0xB3, CHR 0xBC] @ '' '' @ [CHR 0xEA, CHR 0xB0, CHR 0x99, CHR 0xEC, CHR 0x9D, CHR 0x80] @ '' '' @ [CHR 0xEC, CHR 0xA7, CHR 0x88, CHR 0xEB, CHR 0xAC, CHR 0xB8, CHR 0xEC, CHR 0x9D, CHR 0x84] @ '' '' @ [CHR 0xEC, CHR 0x8B, CHR 0x9C, CHR 0xEB, CHR 0x8F, CHR 0x84, CHR 0xED, CHR 0x95, CHR 0xB4, CHR 0xEB, CHR 0xB3, CHR 0xB4, CHR 0xEC, CHR 0x84, CHR 0xB8, CHR 0xEC, CHR 0x9A, CHR 0x94] @ '':'' @ [CHR 0x0A]) @
     (''- '' @ [CHR 0x22, CHR 0xEA, CHR 0xB0, CHR 0x80, CHR 0xEC, CHR 0x9E, CHR 0xA5] @ '' '' @ [CHR 0xED, CHR 0x8F, CHR 0xAC, CHR 0xED, CHR 0x99, CHR 0x94, CHR 0xEA, CHR 0xB0, CHR 0x80] @ '' '' @ [CHR 0xEB, CHR 0xA7, CHR 0x8E, CHR 0xEC, CHR 0x9D, CHR 0x80] @ '' '' @ [CHR 0xEB, CHR 0x85, CHR 0xB8, CHR 0xEC, CHR 0x84, CHR 0xA0, CHR 0xEC, CHR 0x9D, CHR 0x80] @ ''?'' @ [CHR 0x22] @ '' (Find/Highlight)'' @ [CHR 0x0A]) @
     (''- '' @ [CHR 0x22, CHR 0xEC, CHR 0x9B, CHR 0x94, CHR 0xEB, CHR 0xB3, CHR 0x84] @ '' '' @ [CHR 0xEC, CHR 0x9A, CHR 0xB4, CHR 0xED, CHR 0x96, CHR 0x89] @ '' '' @ [CHR 0xEB, CHR 0x8B, CHR 0xA8, CHR 0xEA, CHR 0xB0, CHR 0x80] @ '' '' @ [CHR 0xEC, CHR 0xB6, CHR 0x94, CHR 0xEC, CHR 0x9D, CHR 0xB4, CHR 0xEB, CHR 0xA5, CHR 0xBC] @ '' '' @ [CHR 0xEB, CHR 0xB3, CHR 0xB4, CHR 0xEC, CHR 0x97, CHR 0xAC, CHR 0xEC, CHR 0xA4, CHR 0x98, CHR 0x22] @ '' (Analysis)'' @ [CHR 0x0A]) @
     (''- '' @ [CHR 0x22, CHR 0xEB, CHR 0x85, CHR 0xB8, CHR 0xEC, CHR 0x84, CHR 0xA0, CHR 0xEB, CHR 0xB3, CHR 0x84] @ '' '' @ [CHR 0xEC, CHR 0x88, CHR 0x98, CHR 0xEC, CHR 0x9D, CHR 0xB5, CHR 0xEB, CHR 0xA5, CHR 0xA0] @ '' '' @ [CHR 0xEB, CHR 0xB9, CHR 0x84, CHR 0xEA, CHR 0xB5, CHR 0x90, CHR 0xED, CHR 0x95, CHR 0xB4, CHR 0xEC, CHR 0xA4, CHR 0x98, CHR 0x22] @ '' (Analysis)'' @ [CHR 0x0A]) @
     ''    ''"

definition fallback_message :: string where
  "fallback_message = py_strip fallback_literal"

definition fallback_response :: "AnalyticsState \<Rightarrow> AnalyticsState io" where
  "fallback_response st =
     lift_io (Inr (st\<lparr>messages := messages st @ [fallback_message],
                       analysis_result := Some (JStr fallback_message)\<rparr>))"

section \<open>The graph and the route\<close>

text \<open>
  \<open>build_analytics_graph\<close>: entry point \<open>intent_analyzer\<close>, a conditional edge through
  \<open>conditional_router\<close>, then each path's nodes in order. An exception in a node or in the
  router ends the run.
\<close>

definition graph_invoke :: "env \<Rightarrow> AnalyticsState \<Rightarrow> AnalyticsState io" where
  "graph_invoke ev initial_state =
     bind_io (intent_analyzer ev initial_state) (\<lambda>st.
     bind_io (lift_io (conditional_router st)) (\<lambda>next_node.
       if next_node = ''get_graph_data'' then
         bind_io (get_graph_data ev st) (select_edge ev)
       else if next_node = ''get_bus_data'' then
         bind_io (get_bus_data ev st) (\<lambda>st.
         bind_io (chart_type_selector ev st) (generate_analytic ev))
       else fallback_response st))"

text \<open>
  Constructing \<open>AnalyticsResponse\<close> validates the fields: \<open>intent_type\<close> must be a string,
  the two dict fields a dict or None, \<open>analysis_result\<close> a string or None.
\<close>

fun opt_dict :: "json option \<Rightarrow> py_exception + (string \<times> json) list option" where
  "opt_dict None = Inr None"
| "opt_dict (Some JNull) = Inr None"
| "opt_dict (Some (JObj kvs)) = Inr (Some kvs)"
| "opt_dict (Some _) = Inl ValidationError"

fun opt_str :: "json option \<Rightarrow> py_exception + string option" where
  "opt_str None = Inr None"
| "opt_str (Some JNull) = Inr None"
| "opt_str (Some (JStr s)) = Inr (Some s)"
| "opt_str (Some _) = Inl ValidationError"

fun req_str :: "json \<Rightarrow> py_exception + string" where
  "req_str (JStr s) = Inr s"
| "req_str _ = Inl ValidationError"

definition make_response :: "AnalyticsState \<Rightarrow> py_exception + AnalyticsResponse" where
  "make_response result =
     bind_exc (req_str (case intent_type result of None \<Rightarrow> JStr ''fallback'' | Some v \<Rightarrow> v)) (\<lambda>it.
     bind_exc (opt_dict (highlight_edge result)) (\<lambda>he.
     bind_exc (opt_dict (chart_data result)) (\<lambda>cd.
     bind_exc (opt_str (analysis_result result)) (\<lambda>ar.
       Inr \<lparr>AnalyticsResponse.intent_type = it,
            AnalyticsResponse.highlight_edge = he,
            AnalyticsResponse.chart_data = cd,
            AnalyticsResponse.analysis_result = ar,
            AnalyticsResponse.chart_type = chart_type result\<rparr>))))"

definition initial_state :: "string \<Rightarrow> AnalyticsState" where
  "initial_state question =
     \<lparr>messages = [question], intent_type = None, graph_data = None, highlight_edge = None,
      transport_data = None, commute_allowance_data = None, chart_type = None,
      chart_data = None, analysis_result = None\<rparr>"

text \<open>\<open>except Exception as e: raise HTTPException(status_code=500, detail=str(e))\<close>.\<close>

definition analyze :: "env \<Rightarrow> string \<Rightarrow> AnalyticsResponse io" where
  "analyze ev question =
     (case graph_invoke ev (initial_state question) of
        (sent, Inl e) \<Rightarrow> (sent, Inl (HTTPException 500 e))
      | (sent, Inr result) \<Rightarrow>
          (sent, case make_response result of
                   Inl e \<Rightarrow> Inl (HTTPException 500 e)
                 | Inr response_data \<Rightarrow> Inr response_data))"

section \<open>Route visualization: data and JavaScript operations\<close>

text \<open>
  A JavaScript number, as far as it is followed here: a whole number of magnitude at most
  \<open>2^53 - 1\<close> (between such numbers addition and subtraction are exact), NaN, or a number
  that is not followed (a fraction, an infinity, a larger magnitude). Arithmetic that
  leaves the whole numbers gives \<open>Untracked\<close>: nothing is said about its value.
\<close>

datatype js_number = Whole int | NaN | Untracked

definition safe_integer :: "int \<Rightarrow> bool" where
  "safe_integer i \<longleftrightarrow> \<bar>i\<bar> \<le> 2 ^ 53 - 1"

definition whole :: "int \<Rightarrow> js_number" where
  "whole i = (if safe_integer i then Whole i else Untracked)"

fun js_add :: "js_number \<Rightarrow> js_number \<Rightarrow> js_number" where
  "js_add NaN b = NaN"
| "js_add a NaN = NaN"
| "js_add (Whole a) (Whole b) =
     (if safe_integer a \<and> safe_integer b then whole (a + b) else Untracked)"
| "js_add a b = Untracked"

fun js_sub :: "js_number \<Rightarrow> js_number \<Rightarrow> js_number" where
  "js_sub NaN b = NaN"
| "js_sub a NaN = NaN"
| "js_sub (Whole a) (Whole b) =
     (if safe_integer a \<and> safe_integer b then whole (a - b) else Untracked)"
| "js_sub a b = Untracked"

text \<open>
  The types of \<open>route.types\<close>. Of a node, \<open>type\<close> and \<open>position\<close> are not read by the
  functions below and are left out, as are the optional \<open>data\<close>, \<open>type\<close>, \<open>animated\<close>
  and \<open>markerEnd\<close> of an edge, which the spread copies unchanged.
\<close>

datatype node_data = StopNodeData string js_number | GroupNodeData

record RouteNode =
  node_id :: string
  data :: node_data
  parentNode :: "string option"

record RouteEdge =
  edge_id :: string
  source :: string
  target :: string
  label :: "string option"

record EnrichedEdge = RouteEdge +
  currentPassengers :: js_number

record RouteGraphData =
  nodes :: "RouteNode list"
  edges :: "RouteEdge list"

definition boarding :: string where
  "boarding = [CHR 0xEC, CHR 0x8A, CHR 0xB9, CHR 0xEC, CHR 0xB0, CHR 0xA8]"

definition alighting :: string where
  "alighting = [CHR 0xED, CHR 0x95, CHR 0x98, CHR 0xEC, CHR 0xB0, CHR 0xA8]"

definition persons_suffix :: string where
  "persons_suffix = [CHR 0xEB, CHR 0xAA, CHR 0x85]"

text \<open>
  JavaScript white space and line terminators, which \<open>trim\<close> and \<open>parseInt\<close> skip: U+0009
  to U+000D, U+0020, U+00A0, U+1680, U+2000 to U+200A, U+2028, U+2029, U+202F, U+205F,
  U+3000 and U+FEFF.
\<close>

definition js_whitespace :: "string list" where
  "js_whitespace =
     [[CHR 0x09], [CHR 0x0A], [CHR 0x0B], [CHR 0x0C], [CHR 0x0D], [CHR 0x20],
      [CHR 0xC2, CHR 0xA0], [CHR 0xE1, CHR 0x9A, CHR 0x80],
      [CHR 0xE2, CHR 0x80, CHR 0x80], [CHR 0xE2, CHR 0x80, CHR 0x81],
      [CHR 0xE2, CHR 0x80, CHR 0x82], [CHR 0xE2, CHR 0x80, CHR 0x83],
      [CHR 0xE2, CHR 0x80, CHR 0x84], [CHR 0xE2, CHR 0x80, CHR 0x85],
      [CHR 0xE2, CHR 0x80, CHR 0x86], [CHR 0xE2, CHR 0x80, CHR 0x87],
      [CHR 0xE2, CHR 0x80, CHR 0x88], [CHR 0xE2, CHR 0x80, CHR 0x89],
      [CHR 0xE2, CHR 0x80, CHR 0x8A], [CHR 0xE2, CHR 0x80, CHR 0xA8],
      [CHR 0xE2, CHR 0x80, CHR 0xA9], [CHR 0xE2, CHR 0x80, CHR 0xAF],
      [CHR 0xE2, CHR 0x81, CHR 0x9F], [CHR 0xE3, CHR 0x80, CHR 0x80],
      [CHR 0xEF, CHR 0xBB, CHR 0xBF]]"

definition js_trim :: "string \<Rightarrow> string" where
  "js_trim s = strip_both js_whitespace s"

text \<open>\<open>s.split('::')[1]\<close>: what lies between the first and the second separator.\<close>

fun after_sep :: "string \<Rightarrow> string option" where
  "after_sep [] = None"
| "after_sep [c] = None"
| "after_sep (c # d # cs) =
     (if c = CHR '':'' \<and> d = CHR '':'' then Some cs else after_sep (d # cs))"

fun before_sep :: "string \<Rightarrow> string" where
  "before_sep [] = []"
| "before_sep [c] = [c]"
| "before_sep (c # d # cs) =
     (if c = CHR '':'' \<and> d = CHR '':'' then [] else c # before_sep (d # cs))"

definition split_second :: "string \<Rightarrow> string option" where
  "split_second s = map_option before_sep (after_sep s)"

text \<open>
  \<open>parseInt(s)\<close> without a radix: leading white space, an optional sign, then hexadecimal
  digits after \<open>0x\<close> or \<open>0X\<close>, decimal digits otherwise; the longest run of digits counts
  and no digit at all gives NaN. The result is followed while it is a whole number within
  \<open>2^53 - 1\<close>.
\<close>

definition is_digit :: "char \<Rightarrow> bool" where
  "is_digit c \<longleftrightarrow> (48::nat) \<le> of_char c \<and> of_char c \<le> (57::nat)"

definition is_hex_digit :: "char \<Rightarrow> bool" where
  "is_hex_digit c \<longleftrightarrow>
     is_digit c \<or> ((65::nat) \<le> of_char c \<and> of_char c \<le> (70::nat))
     \<or> ((97::nat) \<le> of_char c \<and> of_char c \<le> (102::nat))"

definition digit_val :: "char \<Rightarrow> nat" where
  "digit_val c =
     (if is_digit c then of_char c - 48
      else if of_char c \<ge> (97::nat) then of_char c - 87
      else of_char c - 55)"

definition digits_val :: "nat \<Rightarrow> string \<Rightarrow> nat" where
  "digits_val radix ds = foldl (\<lambda>acc c. acc * radix + digit_val c) 0 ds"

definition parseInt :: "string \<Rightarrow> js_number" where
  "parseInt s =
     (let s1 = strip_left js_whitespace s;
          sign = (if take 1 s1 = ''-'' then - 1 else 1 :: int);
          s2 = (if take 1 s1 = ''-'' \<or> take 1 s1 = ''+'' then drop 1 s1 else s1);
          hex = (take 2 s2 = ''0x'' \<or> take 2 s2 = ''0X'');
          ds = (if hex then takeWhile is_hex_digit (drop 2 s2) else takeWhile is_digit s2)
      in if ds = [] then NaN
         else whole (sign * int (digits_val (if hex then 16 else 10) ds)))"

text \<open>
  The template literal of a number: the decimal digits of a whole number, with a minus
  sign when negative, and \<open>NaN\<close> for NaN.
\<close>

function decimal :: "nat \<Rightarrow> string" where
  "decimal n = (if n < 10 then [char_of (48 + n)] else decimal (n div 10) @ [char_of (48 + n mod 10)])"
  by pat_completeness auto
termination
  by (relation "measure (\<lambda>n. n)") auto

declare decimal.simps [simp del]

fun number_string :: "js_number \<Rightarrow> string option" where
  "number_string (Whole i) =
     (if \<not> safe_integer i then None
      else if i < 0 then Some (CHR ''-'' # decimal (nat (- i)))
      else Some (decimal (nat i)))"
| "number_string NaN = Some ''NaN''"
| "number_string Untracked = None"

text \<open>
  \<open>Array.prototype.sort\<close> with a comparator. The number the comparator returns is read
  by its sign, NaN counting as \<open>0\<close>. When the comparator is a consistent comparator for
  the elements (reflexive, symmetric and transitive in its \<open>0\<close> results, transitive in its
  negative and in its positive results) the result is the stable sort, written as
  insertion from the right. Otherwise the language leaves the order to the
  implementation, and the model gives no result (\<open>None\<close>); it gives none either when a
  comparison is not followed. An array of fewer than two elements is returned as it is.
\<close>

fun comparison :: "js_number \<Rightarrow> int option" where
  "comparison (Whole v) = Some v"
| "comparison NaN = Some 0"
| "comparison Untracked = None"

definition consistent_comparator :: "('a \<Rightarrow> 'a \<Rightarrow> int) \<Rightarrow> 'a list \<Rightarrow> bool" where
  "consistent_comparator cmp xs \<longleftrightarrow>
     list_all (\<lambda>a. cmp a a = 0 \<and>
       list_all (\<lambda>b. (cmp a b = 0 \<longrightarrow> cmp b a = 0) \<and>
         list_all (\<lambda>c.
             (cmp a b = 0 \<and> cmp b c = 0 \<longrightarrow> cmp a c = 0)
           \<and> (cmp a b < 0 \<and> cmp b c < 0 \<longrightarrow> cmp a c < 0)
           \<and> (cmp a b > 0 \<and> cmp b c > 0 \<longrightarrow> cmp a c > 0)) xs) xs) xs"

fun insert_by :: "('a \<Rightarrow> 'a \<Rightarrow> int) \<Rightarrow> 'a \<Rightarrow> 'a list \<Rightarrow> 'a list" where
  "insert_by cmp x [] = [x]"
| "insert_by cmp x (y # ys) = (if cmp x y \<le> 0 then x # y # ys else y # insert_by cmp x ys)"

definition js_sort :: "('a \<Rightarrow> 'a \<Rightarrow> js_number) \<Rightarrow> 'a list \<Rightarrow> 'a list option" where
  "js_sort comparefn xs =
     (if length xs < 2 then Some xs
      else if list_ex (\<lambda>a. list_ex (\<lambda>b. comparison (comparefn a b) = None) xs) xs then None
      else
        (let cmp = (\<lambda>a b. the (comparison (comparefn a b))) in
         if consistent_comparator cmp xs then Some (foldr (insert_by cmp) xs []) else None))"

section \<open>dataTransform.ts\<close>

text \<open>\<open>parseInt(a.id.split('::')[1] || '0')\<close>: a missing or empty segment reads as \<open>'0'\<close>.\<close>

definition node_num :: "RouteNode \<Rightarrow> js_number" where
  "node_num n =
     parseInt (case split_second (node_id n) of
                 None \<Rightarrow> ''0''
               | Some seg \<Rightarrow> if seg = [] then ''0'' else seg)"

text \<open>The comparator \<open>(a, b) => aNum - bNum\<close>.\<close>

definition compare_nodes :: "RouteNode \<Rightarrow> RouteNode \<Rightarrow> js_number" where
  "compare_nodes a b = js_sub (node_num a) (node_num b)"

text \<open>The \<open>Map\<close> from route to its nodes, in insertion order.\<close>

fun group_push :: "(string \<times> RouteNode list) list \<Rightarrow> string \<Rightarrow> RouteNode \<Rightarrow> (string \<times> RouteNode list) list" where
  "group_push [] route node = [(route, [node])]"
| "group_push ((r, ns) # rest) route node =
     (if r = route then (r, ns @ [node]) # rest else (r, ns) # group_push rest route node)"

definition routeGroups :: "RouteNode list \<Rightarrow> (string \<times> RouteNode list) list" where
  "routeGroups ns =
     foldl (\<lambda>groups node.
              case parentNode node of
                None \<Rightarrow> groups
              | Some route \<Rightarrow> if route = [] then groups else group_push groups route node)
           [] ns"

text \<open>The head count after a stop: \<open>+=\<close> on boarding, \<open>-=\<close> on alighting.\<close>

definition after_stop :: "js_number \<Rightarrow> RouteNode \<Rightarrow> js_number" where
  "after_stop current node =
     (case data node of
        StopNodeData action cnt \<Rightarrow>
          if action = boarding then js_add current cnt
          else if action = alighting then js_sub current cnt
          else current
      | GroupNodeData \<Rightarrow> current)"

text \<open>\<open>{...edge, currentPassengers, label}\<close>; no result when the number's text is not followed.\<close>

definition enrich :: "RouteEdge \<Rightarrow> js_number \<Rightarrow> EnrichedEdge option" where
  "enrich edge passengers =
     map_option
       (\<lambda>txt. \<lparr>edge_id = edge_id edge, source = source edge, target = target edge,
                label = Some (txt @ persons_suffix),
                currentPassengers = passengers\<rparr>)
       (number_string passengers)"

text \<open>The inner \<open>forEach\<close> over a route's sorted nodes, from a running head count.\<close>

fun route_edges :: "RouteEdge list \<Rightarrow> js_number \<Rightarrow> RouteNode list \<Rightarrow> EnrichedEdge list option" where
  "route_edges es current [] = Some []"
| "route_edges es current (node # rest) =
     (let current' = after_stop current node;
          pushed =
            (case rest of
               [] \<Rightarrow> Some []
             | nextNode # _ \<Rightarrow>
                 (case find (\<lambda>e. source e = node_id node \<and> target e = node_id nextNode) es of
                    None \<Rightarrow> Some []
                  | Some edge \<Rightarrow> map_option (\<lambda>e. [e]) (enrich edge current')))
      in case pushed of
           None \<Rightarrow> None
         | Some here \<Rightarrow> map_option (\<lambda>later. here @ later) (route_edges es current' rest))"

text \<open>The outer \<open>forEach\<close> over the routes, in the order of the \<open>Map\<close>.\<close>

fun all_routes :: "RouteEdge list \<Rightarrow> (string \<times> RouteNode list) list \<Rightarrow> EnrichedEdge list option" where
  "all_routes es [] = Some []"
| "all_routes es ((routeName, routeNodes) # groups) =
     (case js_sort compare_nodes routeNodes of
        None \<Rightarrow> None
      | Some sortedNodes \<Rightarrow>
          (case route_edges es (Whole 0) sortedNodes of
             None \<Rightarrow> None
           | Some here \<Rightarrow> map_option (\<lambda>later. here @ later) (all_routes es groups)))"

text \<open>
  \<open>calculateCurrentPassengers\<close>; \<open>None\<close> where the result rests on what is not followed
  here (an order left to the engine, a number outside the exact whole numbers).
\<close>

definition calculateCurrentPassengers :: "RouteNode list \<Rightarrow> RouteEdge list \<Rightarrow> EnrichedEdge list option" where
  "calculateCurrentPassengers ns es = all_routes es (routeGroups ns)"

fun validate_loop :: "string set \<Rightarrow> RouteEdge list \<Rightarrow> bool" where
  "validate_loop nodeIds [] = True"
| "validate_loop nodeIds (edge # rest) =
     (if source edge \<notin> nodeIds \<or> target edge \<notin> nodeIds then False
      else validate_loop nodeIds rest)"

definition validateNodeEdges :: "RouteGraphData \<Rightarrow> bool" where
  "validateNodeEdges d = validate_loop (set (map node_id (nodes d))) (edges d)"

text \<open>
  The order the comment on the sort names, "by the last number of the id": the numeric
  suffix of a node id, the number written by the decimal digits that end it. The code
  does not use it.
\<close>

definition numeric_suffix :: "string \<Rightarrow> nat" where
  "numeric_suffix s = digits_val 10 (rev (takeWhile is_digit (rev s)))"

section \<open>The chat panel\<close>

text \<open>
  \<open>sendMessage\<close> posts the question to the analytics route and throws (\<open>None\<close>) on a
  response that is not ok. A message keeps the fields copied from the response as the
  response itself; message ids (the clock) are not modelled.
\<close>

definition sendMessage :: "env \<Rightarrow> string \<Rightarrow> prompt list \<times> AnalyticsResponse option" where
  "sendMessage ev question =
     (case analyze ev question of
        (sent, Inl e) \<Rightarrow> (sent, None)
      | (sent, Inr response) \<Rightarrow> (sent, Some response))"

datatype role = User | Assistant

record Message =
  role :: role
  content :: string
  response :: "AnalyticsResponse option"

record panel =
  panel_messages :: "Message list"
  input :: string
  loading :: bool

definition analysis_done :: string where
  "analysis_done = [CHR 0xEB, CHR 0xB6, CHR 0x84, CHR 0xEC, CHR 0x84, CHR 0x9D] @ '' '' @ [CHR 0xEC, CHR 0x99, CHR 0x84, CHR 0xEB, CHR 0xA3, CHR 0x8C]"

definition send_failed :: string where
  "send_failed = [CHR 0xEC, CHR 0x98, CHR 0xA4, CHR 0xEB, CHR 0xA5, CHR 0x98, CHR 0xEA, CHR 0xB0, CHR 0x80] @ '' '' @
     [CHR 0xEB, CHR 0xB0, CHR 0x9C, CHR 0xEC, CHR 0x83, CHR 0x9D, CHR 0xED, CHR 0x96, CHR 0x88, CHR 0xEC, CHR 0x8A, CHR 0xB5, CHR 0xEB, CHR 0x8B, CHR 0x88, CHR 0xEB, CHR 0x8B, CHR 0xA4] @ ''. '' @
     [CHR 0xEB, CHR 0xB0, CHR 0xB1, CHR 0xEC, CHR 0x97, CHR 0x94, CHR 0xEB, CHR 0x93, CHR 0x9C] @ '' '' @
     [CHR 0xEC, CHR 0x84, CHR 0x9C, CHR 0xEB, CHR 0xB2, CHR 0x84, CHR 0xEA, CHR 0xB0, CHR 0x80] @ '' '' @
     [CHR 0xEC, CHR 0x8B, CHR 0xA4, CHR 0xED, CHR 0x96, CHR 0x89] @ '' '' @
     [CHR 0xEC, CHR 0xA4, CHR 0x91, CHR 0xEC, CHR 0x9D, CHR 0xB8, CHR 0xEC, CHR 0xA7, CHR 0x80] @ '' '' @
     [CHR 0xED, CHR 0x99, CHR 0x95, CHR 0xEC, CHR 0x9D, CHR 0xB8, CHR 0xED, CHR 0x95, CHR 0xB4, CHR 0xEC, CHR 0xA3, CHR 0xBC, CHR 0xEC, CHR 0x84, CHR 0xB8, CHR 0xEC, CHR 0x9A, CHR 0x94] @ ''.''"

text \<open>
  \<open>handleSend\<close>, run to completion: the panel afterwards, the prompts that reached the hosted
  model, and the edges handed to \<open>onHighlightEdge\<close> (when the callback is given).
\<close>

definition handleSend ::
    "env \<Rightarrow> bool \<Rightarrow> panel \<Rightarrow> panel \<times> prompt list \<times> (string \<times> json) list list" where
  "handleSend ev onHighlightEdge p =
     (if js_trim (input p) = [] \<or> loading p then (p, [], [])
      else
        (let userMessage = \<lparr>role = User, content = input p, response = None\<rparr> in
         case sendMessage ev (input p) of
           (sent, None) \<Rightarrow>
             (\<lparr>panel_messages = panel_messages p @
                  [userMessage, \<lparr>role = Assistant, content = send_failed, response = None\<rparr>],
               input = [], loading = False\<rparr>, sent, [])
         | (sent, Some r) \<Rightarrow>
             (\<lparr>panel_messages = panel_messages p @
                  [userMessage,
                   \<lparr>role = Assistant,
                    content = (case AnalyticsResponse.analysis_result r of
                                 None \<Rightarrow> analysis_done
                               | Some a \<Rightarrow> if a = [] then analysis_done else a),
                    response = Some r\<rparr>],
               input = [], loading = False\<rparr>,
              sent,
              (case AnalyticsResponse.highlight_edge r of
                 Some edge \<Rightarrow>
                   if AnalyticsResponse.intent_type r = ''find_highlight'' \<and> onHighlightEdge
                   then [edge] else []
               | None \<Rightarrow> []))))"

section \<open>Concrete requests\<close>

text \<open>
  Collaborators for worked requests. The data files are present: a graph of two stops
  joined by the edge \<open>e1\<close>, and two empty tabular files (which the encoder writes as
  \<open>[]\<close>). The decoder is given by the texts it decodes; every other text is not JSON.
  The hosted model is scripted by the kind of prompt.
\<close>

definition example_graph_file :: json where
  "example_graph_file =
     JObj [(''nodes'',
            JArr [JObj [(''id'', JStr ''a''), (''type'', JStr ''stop''),
                        (''data'', JObj [(''label'', JStr ''A'')])],
                  JObj [(''id'', JStr ''b''), (''type'', JStr ''stop''),
                        (''data'', JObj [(''label'', JStr ''B'')])]]),
           (''edges'',
            JArr [JObj [(''id'', JStr ''e1''), (''source'', JStr ''a''), (''target'', JStr ''b''),
                        (''label'', JStr ''3'')]])]"

definition example_graph :: graph_data where
  "example_graph =
     Graph
       [\<lparr>n_id = JStr ''a'', n_type = JStr ''stop'', n_label = JStr ''A''\<rparr>,
        \<lparr>n_id = JStr ''b'', n_type = JStr ''stop'', n_label = JStr ''B''\<rparr>]
       [\<lparr>e_id = JStr ''e1'', e_source = JStr ''a'', e_target = JStr ''b'', e_label = JStr ''3''\<rparr>]
       \<lparr>total_nodes = 2, total_edges = 1\<rparr>"

definition find_text :: string where
  \<open>find_text = ''{"intent": "find_highlight", "confidence": 0.9, "reason": "asks for a route"}''\<close>

definition find_json :: json where
  "find_json =
     JObj [(''intent'', JStr ''find_highlight''), (''confidence'', JFloat (Finite 0.9)),
           (''reason'', JStr ''asks for a route'')]"

definition analysis_text :: string where
  \<open>analysis_text = ''{"intent": "analysis", "confidence": 0.8, "reason": "asks for figures"}''\<close>

definition analysis_json :: json where
  "analysis_json =
     JObj [(''intent'', JStr ''analysis''), (''confidence'', JFloat (Finite 0.8)),
           (''reason'', JStr ''asks for figures'')]"

definition greeting_text :: string where
  \<open>greeting_text = ''{"intent": "greeting", "confidence": 0.9, "reason": "small talk"}''\<close>

definition greeting_json :: json where
  "greeting_json =
     JObj [(''intent'', JStr ''greeting''), (''confidence'', JFloat (Finite 0.9)),
           (''reason'', JStr ''small talk'')]"

definition list_text :: string where
  \<open>list_text = ''{"intent": ["find_highlight", "analysis"], "confidence": 0.5, "reason": "both"}''\<close>

definition list_json :: json where
  "list_json =
     JObj [(''intent'', JArr [JStr ''find_highlight'', JStr ''analysis'']),
           (''confidence'', JFloat (Finite 0.5)), (''reason'', JStr ''both'')]"

definition bare_text :: string where
  \<open>bare_text = ''{"confidence": 0.5}''\<close>

definition bare_json :: json where
  "bare_json = JObj [(''confidence'', JFloat (Finite 0.5))]"

definition edge_text :: string where
  \<open>edge_text = ''{"highlight": {"id": "e99", "source": "a", "target": "b", "label": "9"}, "reason": "busiest"}''\<close>

definition edge_json :: json where
  "edge_json =
     JObj [(''highlight'',
            JObj [(''id'', JStr ''e99''), (''source'', JStr ''a''), (''target'', JStr ''b''),
                  (''label'', JStr ''9'')]),
           (''reason'', JStr ''busiest'')]"

definition null_edge_text :: string where
  \<open>null_edge_text = ''{"highlight": null, "reason": null}''\<close>

definition null_edge_json :: json where
  "null_edge_json = JObj [(''highlight'', JNull), (''reason'', JNull)]"

definition summary_text :: string where
  \<open>summary_text = ''{"chart_data": null, "reason": "Night allowance is 15000 on every route."}''\<close>

definition summary_json :: json where
  "summary_json =
     JObj [(''chart_data'', JNull), (''reason'', JStr ''Night allowance is 15000 on every route.'')]"

definition null_chart_text :: string where
  \<open>null_chart_text = ''{"chart_data": null, "reason": null}''\<close>

definition null_chart_json :: json where
  "null_chart_json = JObj [(''chart_data'', JNull), (''reason'', JNull)]"

definition decoded_texts :: "(string \<times> json) list" where
  "decoded_texts =
     [(find_text, find_json), (analysis_text, analysis_json), (greeting_text, greeting_json),
      (list_text, list_json), (bare_text, bare_json), (edge_text, edge_json),
      (null_edge_text, null_edge_json), (summary_text, summary_json),
      (null_chart_text, null_chart_json)]"

definition scripted :: "reply \<Rightarrow> reply \<Rightarrow> reply \<Rightarrow> reply \<Rightarrow> prompt \<Rightarrow> reply" where
  "scripted intent_reply edge_reply chart_reply analytic_reply p =
     (case p of
        IntentPrompt q \<Rightarrow> intent_reply
      | EdgePrompt q es \<Rightarrow> edge_reply
      | ChartTypePrompt q \<Rightarrow> chart_reply
      | AnalyticPrompt td cd q ct \<Rightarrow> analytic_reply)"

definition example_env :: "(prompt \<Rightarrow> reply) \<Rightarrow> env" where
  "example_env model =
     \<lparr>llm = model,
      json_loads = (\<lambda>s. case map_of decoded_texts s of
                           Some j \<Rightarrow> Inr j
                         | None \<Rightarrow> Inl JSONDecodeError),
      json_dumps = (\<lambda>j. ''[]''),
      graph_file = Inr example_graph_file,
      transport_file = Inr (JArr []),
      commute_file = Inr (JArr [])\<rparr>"



text \<open>The classifier answers with a list of labels.\<close>

definition env_list_label :: env where
  "env_list_label =
     example_env (scripted (Content list_text) (Content edge_text)
                    (Content ''text_summary'') (Content summary_text))"

text \<open>The classifier answers with prose.\<close>

definition env_prose :: env where
  "env_prose =
     example_env (scripted (Content ''I cannot tell.'') (Content edge_text)
                    (Content ''text_summary'') (Content summary_text))"


text \<open>A highlight request; the edge selection names an edge \<open>e99\<close>.\<close>

definition env_edge :: env where
  "env_edge =
     example_env (scripted (Content find_text) (Content edge_text)
                    (Content ''text_summary'') (Content summary_text))"

definition state_one_edge :: AnalyticsState where
  "state_one_edge =
     (initial_state ''busiest route?'')
       \<lparr>intent_type := Some (JStr ''find_highlight''), graph_data := Some example_graph\<rparr>"


text \<open>A graph file whose only edge joins two nodes that do not exist.\<close>

definition dangling_file :: json where
  "dangling_file =
     JObj [(''viewport'', JObj [(''zoom'', JInt 1)]),
           (''edges'', JArr [JObj [(''id'', JStr ''e1''), (''source'', JStr ''a''),
                                    (''target'', JStr ''b'')]]),
           (''nodes'', JArr [])]"

definition env_dangling :: env where
  "env_dangling = (env_edge)\<lparr>graph_file := Inr dangling_file\<rparr>"

definition dangling_graph :: RouteGraphData where
  "dangling_graph =
     \<lparr>nodes = [], edges = [\<lparr>edge_id = ''e1'', source = ''a'', target = ''b'', label = None\<rparr>]\<rparr>"



text \<open>An analysis request; the chart type selection answers with a type outside the four.\<close>

definition env_pie :: env where
  "env_pie =
     example_env (scripted (Content analysis_text) (Content edge_text)
                    (Content ''pie_chart'') (Content summary_text))"

text \<open>
  Two stops of one route whose ids have two separators, listed in the order of their
  second segments, and an edge each way.
\<close>

definition suffix_nodes :: "RouteNode list" where
  "suffix_nodes =
     [\<lparr>node_id = ''r::1::9'', data = StopNodeData boarding (Whole 5), parentNode = Some ''r''\<rparr>,
      \<lparr>node_id = ''r::2::1'', data = StopNodeData boarding (Whole 3), parentNode = Some ''r''\<rparr>]"

definition suffix_edges :: "RouteEdge list" where
  "suffix_edges =
     [\<lparr>edge_id = ''e1'', source = ''r::1::9'', target = ''r::2::1'', label = None\<rparr>,
      \<lparr>edge_id = ''e2'', source = ''r::2::1'', target = ''r::1::9'', label = None\<rparr>]"

text \<open>An input of a no-break space, an ideographic space and two spaces.\<close>

definition blank_panel :: panel where
  "blank_panel =
     \<lparr>panel_messages = [],
      input = [CHR 0xC2, CHR 0xA0, CHR 0xE3, CHR 0x80, CHR 0x80, CHR 0x20, CHR 0x20],
      loading = False\<rparr>"

section \<open>Auxiliary facts\<close>

lemmas io_defs = bind_io_def lift_io_def llm_invoke_def bind_exc_def








lemma fallback_response_eq:
  "fallback_response st = ([], Inr (st\<lparr>messages := messages st @ [fallback_message],
                       analysis_result := Some (JStr fallback_message)\<rparr>))"
  by (simp add: fallback_response_def lift_io_def)

lemma fallback_message_nonempty: "fallback_message \<noteq> []"
  by code_simp

section \<open>The path dispatcher\<close>

text \<open>
  Against claim C1 as stated: the classifier's reply is valid JSON whose intent is a list
  of two labels; \<open>intent_analyzer\<close> writes it to the state as it is, and on reading it
  \<open>conditional_router\<close> raises TypeError (a list cannot be a dictionary key).
\<close>

theorem conditional_router_list_label_counterexample:
  "snd (intent_analyzer env_list_label (initial_state ''Which route?''))
     = Inr ((initial_state ''Which route?'')
              \<lparr>intent_type := Some (JArr [JStr ''find_highlight'', JStr ''analysis''])\<rparr>)
   \<and> conditional_router
        ((initial_state ''Which route?'')
           \<lparr>intent_type := Some (JArr [JStr ''find_highlight'', JStr ''analysis''])\<rparr>)
       = Inl TypeError"
  by code_simp

text \<open>
  Claim C1, amended. For every intent label that can be a dictionary key (every string,
  recognised or not, and every number, boolean or None) and when no label is in the
  state, \<open>conditional_router\<close> returns one of the three node identifiers
  \<open>get_graph_data\<close>, \<open>get_bus_data\<close>, \<open>fallback_response\<close> and raises nothing; every such
  label other than \<open>find_highlight\<close> and \<open>analysis\<close> (the label \<open>fallback\<close> included) is
  sent to \<open>fallback_response\<close>.
\<close>

theorem conditional_router_total:
  assumes "\<forall>v. intent_type st = Some v \<longrightarrow> py_hashable v"
  shows "conditional_router st \<in> {Inr ''get_graph_data'', Inr ''get_bus_data'', Inr ''fallback_response''}
       \<and> (intent_type st \<notin> {Some (JStr ''find_highlight''), Some (JStr ''analysis'')}
            \<longrightarrow> conditional_router st = Inr ''fallback_response'')"
  using assms
  by (auto simp: conditional_router_def route_map_def Let_def split: option.splits json.splits)

text \<open>An unrecognised label, \<open>greeting\<close>, is sent to the fallback node.\<close>

theorem conditional_router_total_witness:
  "py_hashable (JStr ''greeting'')
   \<and> conditional_router ((initial_state ''hello'')\<lparr>intent_type := Some (JStr ''greeting'')\<rparr>)
       = Inr ''fallback_response''"
  using conditional_router_total [of "(initial_state ''hello'')\<lparr>intent_type := Some (JStr ''greeting'')\<rparr>"]
  by simp

section \<open>The route and stage failures\<close>






section \<open>The intent classifier\<close>





section \<open>The highlight path\<close>

text \<open>
  Against claim C4 as stated: the graph in the state has the single edge \<open>e1\<close>, the model
  names \<open>e99\<close>, and \<open>select_edge\<close> returns \<open>e99\<close> as the highlight.
\<close>

theorem select_edge_absent_edge_counterexample:
  "snd (select_edge env_edge state_one_edge)
     = Inr (state_one_edge
              \<lparr>highlight_edge := Some (JObj [(''id'', JStr ''e99''), (''source'', JStr ''a''),
                                              (''target'', JStr ''b''), (''label'', JStr ''9'')]),
               analysis_result := Some (JStr ''busiest''),
               messages := messages state_one_edge @ [edge_text]\<rparr>)
   \<and> map e_id (state_edges state_one_edge) = [JStr ''e1'']"
  by code_simp

text \<open>
  Claim C4, amended. On a state with a message, when the model's reply decodes to an
  object with the keys \<open>highlight\<close> and \<open>reason\<close>, \<open>select_edge\<close> returns the value of
  \<open>highlight\<close> unchanged as \<open>highlight_edge\<close> and the value of \<open>reason\<close> as
  \<open>analysis_result\<close>, whatever edges the graph data holds: the edge list only enters the
  prompt, and no check of the returned id against it is made.
\<close>

theorem select_edge_returns_model_choice:
  assumes "messages st \<noteq> []"
    and "llm ev (EdgePrompt (last (messages st)) (state_edges st)) = Content c"
    and "json_loads ev c = Inr (JObj kvs)"
    and "map_of kvs ''highlight'' = Some h"
    and "map_of kvs ''reason'' = Some r"
  shows "select_edge ev st
           = ([EdgePrompt (last (messages st)) (state_edges st)],
              Inr (st\<lparr>highlight_edge := Some h, analysis_result := Some r,
                       messages := messages st @ [c]\<rparr>))"
  using assms
  by (auto simp: select_edge_def io_defs split: list.splits)

lemma edge_reply_facts:
  "messages state_one_edge \<noteq> []"
  "llm env_edge (EdgePrompt (last (messages state_one_edge)) (state_edges state_one_edge)) = Content edge_text"
  "json_loads env_edge edge_text = Inr edge_json"
  by code_simp+

text \<open>The reply naming \<open>e99\<close> against the graph with the single edge \<open>e1\<close>.\<close>

theorem select_edge_returns_model_choice_witness:
  "messages state_one_edge \<noteq> []
   \<and> llm env_edge (EdgePrompt (last (messages state_one_edge)) (state_edges state_one_edge)) = Content edge_text
   \<and> json_loads env_edge edge_text = Inr edge_json
   \<and> highlight_edge (projr (snd (select_edge env_edge state_one_edge)))
       = Some (JObj [(''id'', JStr ''e99''), (''source'', JStr ''a''),
                     (''target'', JStr ''b''), (''label'', JStr ''9'')])"
  using select_edge_returns_model_choice [of state_one_edge env_edge edge_text
      "[(''highlight'',
            JObj [(''id'', JStr ''e99''), (''source'', JStr ''a''), (''target'', JStr ''b''),
                  (''label'', JStr ''9'')]),
           (''reason'', JStr ''busiest'')]"
      "JObj [(''id'', JStr ''e99''), (''source'', JStr ''a''), (''target'', JStr ''b''),
                  (''label'', JStr ''9'')]" "JStr ''busiest''"]
  by (simp add: edge_reply_facts edge_json_def)

section \<open>The graph data adapter\<close>

lemma validate_loop_iff:
  "validate_loop ids es \<longleftrightarrow> (\<forall>e \<in> set es. source e \<in> ids \<and> target e \<in> ids)"
  by (induction es) auto

text \<open>
  Against claim C5 as stated: the graph file has no nodes and one edge from \<open>a\<close> to \<open>b\<close>;
  \<open>get_graph_data\<close> succeeds and hands on that edge.
\<close>

theorem get_graph_data_dangling_counterexample:
  "get_graph_data env_dangling (initial_state ''busiest route?'')
     = ([], Inr ((initial_state ''busiest route?'')
          \<lparr>graph_data := Some (Graph []
              [\<lparr>e_id = JStr ''e1'', e_source = JStr ''a'', e_target = JStr ''b'', e_label = JStr []\<rparr>]
              \<lparr>total_nodes = 0, total_edges = 1\<rparr>)\<rparr>))"
  by code_simp

text \<open>
  Claim C5, amended. \<open>get_graph_data\<close> never fails: it always returns a \<open>graph_data\<close>
  entry. For a file that decodes to an object whose \<open>nodes\<close> and \<open>edges\<close> (each an empty
  list when absent) are lists of entries that all have the keys read, whatever other keys
  the object has, that entry is every node and every edge as read, with their counts,
  whether or not the edges refer to existing nodes. The reference check is the frontend's
  \<open>validateNodeEdges\<close>, which returns false (and raises nothing) exactly when some edge's
  source or target is not a node id.
\<close>

theorem get_graph_data_accepts_any_graph:
  "(\<exists>g. get_graph_data ev st = ([], Inr (st\<lparr>graph_data := Some g\<rparr>)))
   \<and> (graph_file ev = Inr (JObj kvs)
        \<and> (case map_of kvs ''nodes'' of None \<Rightarrow> JArr [] | Some v \<Rightarrow> v) = JArr ns
        \<and> (case map_of kvs ''edges'' of None \<Rightarrow> JArr [] | Some v \<Rightarrow> v) = JArr es
        \<and> mapM_exc node_of ns = Inr ns' \<and> mapM_exc edge_of es = Inr es'
      \<longrightarrow> get_graph_data ev st
            = ([], Inr (st\<lparr>graph_data :=
                 Some (Graph ns' es' \<lparr>total_nodes = length ns', total_edges = length es'\<rparr>)\<rparr>)))
   \<and> (validateNodeEdges d
        \<longleftrightarrow> (\<forall>e \<in> set (edges d). source e \<in> node_id ` set (nodes d)
                                  \<and> target e \<in> node_id ` set (nodes d)))"
proof (intro conjI impI)
  show "\<exists>g. get_graph_data ev st = ([], Inr (st\<lparr>graph_data := Some g\<rparr>))"
    unfolding get_graph_data_def lift_io_def by blast
next
  assume "graph_file ev = Inr (JObj kvs)
        \<and> (case map_of kvs ''nodes'' of None \<Rightarrow> JArr [] | Some v \<Rightarrow> v) = JArr ns
        \<and> (case map_of kvs ''edges'' of None \<Rightarrow> JArr [] | Some v \<Rightarrow> v) = JArr es
        \<and> mapM_exc node_of ns = Inr ns' \<and> mapM_exc edge_of es = Inr es'"
  then show "get_graph_data ev st
            = ([], Inr (st\<lparr>graph_data :=
                 Some (Graph ns' es' \<lparr>total_nodes = length ns', total_edges = length es'\<rparr>)\<rparr>))"
    by (simp add: get_graph_data_def load_graph_def io_defs)
next
  show "validateNodeEdges d
        \<longleftrightarrow> (\<forall>e \<in> set (edges d). source e \<in> node_id ` set (nodes d)
                                  \<and> target e \<in> node_id ` set (nodes d))"
    by (simp add: validateNodeEdges_def validate_loop_iff)
qed

lemma dangling_facts:
  "graph_file env_dangling = Inr dangling_file"
  "mapM_exc node_of [] = Inr []"
  "mapM_exc edge_of [JObj [(''id'', JStr ''e1''), (''source'', JStr ''a''), (''target'', JStr ''b'')]]
       = Inr [\<lparr>e_id = JStr ''e1'', e_source = JStr ''a'', e_target = JStr ''b'', e_label = JStr []\<rparr>]"
  "\<not> validateNodeEdges dangling_graph"
  by code_simp+

text \<open>
  The file with the dangling edge (and a key that is not read, its keys in another order):
  it loads, and \<open>validateNodeEdges\<close> answers false.
\<close>

theorem get_graph_data_accepts_any_graph_witness:
  "graph_file env_dangling = Inr dangling_file
   \<and> mapM_exc node_of [] = Inr []
   \<and> mapM_exc edge_of [JObj [(''id'', JStr ''e1''), (''source'', JStr ''a''), (''target'', JStr ''b'')]]
       = Inr [\<lparr>e_id = JStr ''e1'', e_source = JStr ''a'', e_target = JStr ''b'', e_label = JStr []\<rparr>]
   \<and> snd (get_graph_data env_dangling (initial_state ''q''))
       = Inr ((initial_state ''q'')
          \<lparr>graph_data := Some (Graph []
              [\<lparr>e_id = JStr ''e1'', e_source = JStr ''a'', e_target = JStr ''b'', e_label = JStr []\<rparr>]
              \<lparr>total_nodes = 0, total_edges = 1\<rparr>)\<rparr>)
   \<and> \<not> validateNodeEdges dangling_graph"
  using get_graph_data_accepts_any_graph [of env_dangling "initial_state ''q''"
      "[(''viewport'', JObj [(''zoom'', JInt 1)]),
           (''edges'', JArr [JObj [(''id'', JStr ''e1''), (''source'', JStr ''a''),
                                    (''target'', JStr ''b'')]]),
           (''nodes'', JArr [])]"
      "[]"
      "[JObj [(''id'', JStr ''e1''), (''source'', JStr ''a''), (''target'', JStr ''b'')]]"
      "[]" "[\<lparr>e_id = JStr ''e1'', e_source = JStr ''a'', e_target = JStr ''b'', e_label = JStr []\<rparr>]"
      dangling_graph]
  by (simp add: dangling_facts(1,4) dangling_file_def edge_of_def bind_exc_def)

section \<open>Blank questions\<close>

lemma fst_bind_io: "\<exists>rest. fst (bind_io m f) = fst m @ rest"
  by (cases m) (auto simp: bind_io_def split: sum.splits prod.splits)

lemma fst_intent_analyzer_initial:
  "fst (intent_analyzer ev (initial_state q)) = [IntentPrompt q]"
  by (simp add: intent_analyzer_def initial_state_def io_defs split: reply.splits sum.splits)

lemma fst_analyze: "fst (analyze ev q) = fst (graph_invoke ev (initial_state q))"
  by (simp add: analyze_def split: prod.splits sum.splits)

text \<open>
  Against claim C6 as stated: for the empty question the route calls the classifier once
  and answers with the fallback envelope; no ValidationError is raised.
\<close>

theorem analyze_empty_question_counterexample:
  "analyze env_prose []
     = ([IntentPrompt []],
        Inr \<lparr>AnalyticsResponse.intent_type = ''fallback'',
             AnalyticsResponse.highlight_edge = None,
             AnalyticsResponse.chart_data = None,
             AnalyticsResponse.analysis_result = Some fallback_message,
             AnalyticsResponse.chart_type = None\<rparr>)"
  by code_simp

text \<open>
  Claim C6, amended. The guard is in the chat panel: when the input is empty after
  trimming, \<open>handleSend\<close> returns at once, leaving the panel as it is, sending no request
  and so reaching neither the classifier nor the hosted model; it raises no error. The
  route itself does not validate the question: for every question, blank ones included,
  the first thing \<open>analyze\<close> does is the classifier call.
\<close>

theorem blank_input_guarded_in_panel_only:
  "(js_trim (input p) = [] \<longrightarrow> handleSend ev onHighlightEdge p = (p, [], []))
   \<and> (\<exists>rest. fst (analyze ev q) = IntentPrompt q # rest)"
proof (intro conjI impI)
  assume "js_trim (input p) = []"
  then show "handleSend ev onHighlightEdge p = (p, [], [])"
    by (simp add: handleSend_def)
next
  obtain rest where "fst (graph_invoke ev (initial_state q))
      = fst (intent_analyzer ev (initial_state q)) @ rest"
    unfolding graph_invoke_def using fst_bind_io by blast
  then show "\<exists>rest. fst (analyze ev q) = IntentPrompt q # rest"
    by (simp add: fst_analyze fst_intent_analyzer_initial)
qed

lemma blank_panel_trims_to_nothing: "js_trim (input blank_panel) = []"
  by code_simp

text \<open>An input of a no-break space, an ideographic space and two spaces.\<close>

theorem blank_input_guarded_in_panel_only_witness:
  "js_trim (input blank_panel) = []
   \<and> handleSend env_prose True blank_panel = (blank_panel, [], [])"
  using blank_input_guarded_in_panel_only [of blank_panel env_prose True]
  by (simp add: blank_panel_trims_to_nothing)

section \<open>The response envelope\<close>










section \<open>Chart type selection\<close>

text \<open>
  Claim C8, at the request where the code departs from it. The request is classified as
  an analysis and the chart type selection answers \<open>pie_chart\<close>. \<open>chart_type_selector\<close>
  returns \<open>pie_chart\<close>, which is none of the four chart types; it reaches the generation
  stage, whose format lookup raises KeyError, and the route ends in an HTTP 500 error. The
  claim asks for the text chart type here, as \<open>generate_analytic\<close> takes for a missing
  chart type and the renderer for an unknown one.
\<close>

theorem chart_type_selector_unknown_type:
  "chart_type_selector env_pie (initial_state ''Compare the routes'')
     = ([ChartTypePrompt ''Compare the routes''],
        Inr ((initial_state ''Compare the routes'')
               \<lparr>chart_type := Some ''pie_chart'',
                messages := [''Compare the routes'', ''pie_chart'']\<rparr>))
   \<and> ''pie_chart'' \<notin> set output_formats
   \<and> analyze env_pie ''Compare the routes''
     = ([IntentPrompt ''Compare the routes'', ChartTypePrompt ''Compare the routes''],
        Inl (HTTPException 500 (KeyError ''pie_chart'')))"
  by code_simp

section \<open>The fallback path\<close>

text \<open>
  Against claim C9 as stated: after \<open>fallback_response\<close> on a fresh request the chart type
  is unset, not \<open>text_summary\<close>.
\<close>

theorem fallback_response_no_chart_type_counterexample:
  "chart_type (projr (snd (fallback_response (initial_state ''hello'')))) = None"
  by (simp add: fallback_response_def lift_io_def initial_state_def)

text \<open>
  Claim C9, amended. \<open>fallback_response\<close> always succeeds, calls nothing, and sets
  \<open>analysis_result\<close> to a fixed, non-empty apology and help text (also appended to the
  messages); it sets no chart type: \<open>chart_type\<close> and \<open>chart_data\<close> stay as they were.
\<close>

theorem fallback_response_total:
  "fallback_response st
     = ([], Inr (st\<lparr>messages := messages st @ [fallback_message],
                     analysis_result := Some (JStr fallback_message)\<rparr>))
   \<and> fallback_message \<noteq> []
   \<and> chart_type (projr (snd (fallback_response st))) = chart_type st
   \<and> chart_data (projr (snd (fallback_response st))) = chart_data st"
  by (simp add: fallback_response_eq fallback_message_nonempty)

section \<open>Passengers on board along a route\<close>

text \<open>
  Claim C10, at an input where the code departs from it. Two stops of route \<open>r\<close> have the
  ids \<open>r::1::9\<close> and \<open>r::2::1\<close>, with five and three people boarding, and there is an
  edge each way. By the numeric suffix of the id (9 and 1), the last number of the id that
  the comment on the sort names, the stops are in the order \<open>r::2::1\<close>, \<open>r::1::9\<close>. The
  code reads the second segment of the id (1 and 2), keeps the stops in the order given,
  and returns the edge from \<open>r::1::9\<close> to \<open>r::2::1\<close> with five on board, where the claim
  has the edge from \<open>r::2::1\<close> to \<open>r::1::9\<close> with three on board.
\<close>

theorem calculateCurrentPassengers_second_segment:
  "calculateCurrentPassengers suffix_nodes suffix_edges
     = Some [\<lparr>edge_id = ''e1'', source = ''r::1::9'', target = ''r::2::1'',
              label = Some [CHR ''5'', CHR 0xEB, CHR 0xAA, CHR 0x85],
              currentPassengers = Whole 5\<rparr>]
   \<and> map (\<lambda>n. numeric_suffix (node_id n)) suffix_nodes = [9, 1]
   \<and> map (\<lambda>n. split_second (node_id n)) suffix_nodes = [Some ''1'', Some ''2'']
   \<and> map node_num suffix_nodes = [Whole 1, Whole 2]"
  by code_simp

end
